theory Spec2Isabelle
  imports Main "HOL-Library.AList" "HOL-Library.Sublist"
begin

section \<open>The redis adapter of socket.io: data\<close>

text \<open>
  The module exports \<^verbatim>\<open>adapter(uri, opts)\<close>, which returns the class \<^verbatim>\<open>Redis\<close>.
  One instance of the class serves one namespace of one server process. The
  instance is event driven: its methods mutate the membership tables, send
  commands to the redis connections and call back. The model passes the
  instance as a record and keeps every effect, in the order the code performs
  it, in the field \<open>trace\<close>.
\<close>

subsection \<open>Packets, options and what travels on the bus\<close>

text \<open>
  A packet is read through \<^verbatim>\<open>packet.nsp\<close> only; the field is \<open>None\<close> when the
  property is \<^verbatim>\<open>undefined\<close>. Options are read through \<^verbatim>\<open>opts.rooms\<close> only, an
  array of room names or \<^verbatim>\<open>undefined\<close>.
\<close>

record packet =
  nsp :: "string option"
  body :: string

record opts =
  opts_rooms :: "string list option"

text \<open>
  \<^verbatim>\<open>msgpack.encode([uid, packet, opts])\<close> is represented by the triple it decodes
  to. On the receiving side \<^verbatim>\<open>args[0]\<close> may be missing or null, hence the
  option. The messages of the sync channels are JSON texts: a request is
  represented by what \<^verbatim>\<open>JSON.parse\<close> makes of it, and \<open>Malformed\<close> stands for
  every text on which \<^verbatim>\<open>JSON.parse\<close> throws.
\<close>

type_synonym envelope = "string \<times> packet option \<times> opts"

datatype sync_msg = Malformed | Request (transaction: string) (request_rooms: "string list")

datatype payload =
    Envelope envelope
  | RequestJson string "string list"
  | ResponseJson "string list"

datatype conn = PubClient | SubClient | SyncSub | SyncPub | ClientsSub

datatype event =
    Debug string "string list"
  | LocalBroadcast packet opts
  | LocalAdd string string
  | LocalDel string string
  | Subscribe conn string
  | Unsubscribe conn string
  | Publish conn string payload
  | EmitError string
  | Callback "string option"
  | CallbackClients "string list"
  | Duplicate conn
  | NumsubCommand string
  | SetTimeout nat
  | ClearTimeout
  | UnsubscribeAll conn
  | Quit conn
  | Warn string

datatype js_error = ReferenceError string | SyntaxError

subsection \<open>The instance\<close>

text \<open>
  \<open>uid\<close> and \<open>prefix\<close> are the variables of the same names in the closure of
  \<^verbatim>\<open>adapter\<close>, \<open>nsp_name\<close> is \<^verbatim>\<open>this.nsp.name\<close>. \<open>has_startsWith\<close> records whether
  the runtime has \<^verbatim>\<open>String.prototype.startsWith\<close>, which the constructor tests.
  \<open>rooms\<close> and \<open>sids\<close> are the two objects of the inherited in-memory adapter,
  kept as association lists in insertion order, the order in which JavaScript
  enumerates keys. \<open>subscribed\<close> is the set of channels of the connection
  \<^verbatim>\<open>sub\<close>: a subscribe command adds its channel and an unsubscribe command
  removes it, in the order the commands are issued.
\<close>

record adapter =
  uid :: string
  prefix :: string
  nsp_name :: string
  has_startsWith :: bool
  rooms :: "(string \<times> string list) list"
  sids :: "(string \<times> string list) list"
  subscribed :: "string set"
  trace :: "event list"

definition log :: "event list \<Rightarrow> adapter \<Rightarrow> adapter" where
  "log es a = a\<lparr>trace := trace a @ es\<rparr>"

text \<open>\<^verbatim>\<open>if (fn) fn(err)\<close>: the callback is optional.\<close>

definition cb :: "bool \<Rightarrow> string option \<Rightarrow> event list" where
  "cb fn err = (if fn then [Callback err] else [])"

text \<open>
  The reply of redis to a subscribe or unsubscribe command, as the command's
  callback handles it (lines 211 to 218 and 239 to 246).
\<close>

definition reply :: "bool \<Rightarrow> string option \<Rightarrow> event list" where
  "reply fn err = (case err of Some e \<Rightarrow> EmitError e # cb fn (Some e) | None \<Rightarrow> cb fn None)"

section \<open>Channel names\<close>

text \<open>String concatenation turns \<^verbatim>\<open>undefined\<close> into the text \<^verbatim>\<open>undefined\<close>.\<close>

definition js_string :: "string option \<Rightarrow> string" where
  "js_string v = (case v of None \<Rightarrow> ''undefined'' | Some s \<Rightarrow> s)"

text \<open>Line 77: \<^verbatim>\<open>this.channel = prefix + '#' + nsp.name + '#'\<close>.\<close>

definition channel :: "adapter \<Rightarrow> string" where
  "channel a = prefix a @ ''#'' @ nsp_name a @ ''#''"

text \<open>Line 78: \<^verbatim>\<open>this.syncChannel = prefix + '-sync#request'\<close>.\<close>

definition syncChannel :: "adapter \<Rightarrow> string" where
  "syncChannel a = prefix a @ ''-sync#request''"

text \<open>Lines 210 and 238: \<^verbatim>\<open>prefix + '#' + this.nsp.name + '#' + room + '#'\<close>.\<close>

definition room_channel :: "adapter \<Rightarrow> string \<Rightarrow> string" where
  "room_channel a room = prefix a @ ''#'' @ nsp_name a @ ''#'' @ room @ ''#''"

text \<open>Lines 162 and 302: \<^verbatim>\<open>prefix + '-sync#response#' + transaction\<close>.\<close>

definition responseChn :: "adapter \<Rightarrow> string \<Rightarrow> string" where
  "responseChn a t = prefix a @ ''-sync#response#'' @ t"

text \<open>
  \<^verbatim>\<open>String.prototype.startsWith\<close> with one argument, and
  \<^verbatim>\<open>s.substr(0, n)\<close>, the first \<open>n\<close> characters of \<open>s\<close> or all of \<open>s\<close> when it is
  shorter.
\<close>

fun startsWith :: "string \<Rightarrow> string \<Rightarrow> bool" where
  "startsWith s [] = True"
| "startsWith [] (c # cs) = False"
| "startsWith (d # ds) (c # cs) = (d = c \<and> startsWith ds cs)"

definition substr0 :: "string \<Rightarrow> nat \<Rightarrow> string" where
  "substr0 s n = take n s"

text \<open>Lines 80 to 88: the constructor picks one of two implementations.\<close>

definition channelMatches :: "adapter \<Rightarrow> string \<Rightarrow> string \<Rightarrow> bool" where
  "channelMatches a messageChannel subscribedChannel =
     (if has_startsWith a then startsWith messageChannel subscribedChannel
      else substr0 messageChannel (length subscribedChannel) = subscribedChannel)"

section \<open>Broadcasting\<close>

text \<open>
  Modelled from the spec: \<^verbatim>\<open>Adapter.prototype.broadcast\<close>, the
  \<^verbatim>\<open>localBroadcast(packet, options)\<close> of the membership store; the package
  socket.io-adapter is not part of this repository. The method delivers the
  packet to the local sockets, which the model records as an event, and before
  that it writes the namespace of the instance into the packet it is handed
  (\<^verbatim>\<open>packet.nsp = this.nsp.name\<close>). The packet is an object shared with the
  caller, so the method returns it as the caller finds it afterwards.
\<close>

definition Adapter_broadcast :: "packet \<Rightarrow> opts \<Rightarrow> adapter \<Rightarrow> packet \<times> adapter" where
  "Adapter_broadcast p opts a = (p\<lparr>nsp := Some (nsp_name a)\<rparr>, log [LocalBroadcast p opts] a)"

text \<open>
  Lines 181 to 195. The inherited method is called first, on the packet object
  that line 184 reads next. \<^verbatim>\<open>if (opts.rooms)\<close> tests the truthiness of the
  property: every array is truthy, the empty one too, and only \<^verbatim>\<open>undefined\<close>
  takes the else branch.
\<close>

definition broadcast :: "packet \<Rightarrow> opts \<Rightarrow> bool \<Rightarrow> adapter \<Rightarrow> adapter" where
  "broadcast p opts remote a =
     (case Adapter_broadcast p opts a of (packet, a1) \<Rightarrow>
        (if \<not> remote then
           (let chn = prefix a1 @ ''#'' @ js_string (nsp packet) @ ''#'';
                msg = Envelope (uid a1, Some packet, opts)
            in (case opts_rooms opts of
                  Some rs \<Rightarrow> log (map (\<lambda>room. Publish PubClient (chn @ room @ ''#'') msg) rs) a1
                | None \<Rightarrow> log [Publish PubClient chn msg] a1))
         else a1))"

text \<open>
  Lines 118 to 140. The three early returns log through \<^verbatim>\<open>debug\<close>; the last line
  replays the packet with \<^verbatim>\<open>remote\<close> set.
\<close>

definition default_nsp :: "packet \<Rightarrow> packet" where
  "default_nsp p = (if nsp p = None then p\<lparr>nsp := Some ''/''\<rparr> else p)"

definition onmessage :: "string \<Rightarrow> envelope \<Rightarrow> adapter \<Rightarrow> adapter" where
  "onmessage chan msg a =
     (if \<not> channelMatches a chan (channel a) then log [Debug ''ignore different channel'' []] a
      else (case msg of (origin, packet, opts) \<Rightarrow>
        (if uid a = origin then log [Debug ''ignore same uid'' []] a
         else (case map_option default_nsp packet of
                 None \<Rightarrow> log [Debug ''ignore different namespace'' []] a
               | Some p \<Rightarrow>
                   (if nsp p \<noteq> Some (nsp_name a)
                    then log [Debug ''ignore different namespace'' []] a
                    else broadcast p opts True a)))))"

section \<open>The inherited in-memory adapter\<close>

text \<open>
  \<^verbatim>\<open>Redis.prototype.__proto__ = Adapter.prototype\<close> (line 110): the class
  \<^verbatim>\<open>Adapter\<close> comes from the package socket.io-adapter, which is not part of this
  repository. Its methods are the local membership store of the specification.
\<close>

text \<open>
  Modelled from the spec: the two lookups of the membership store,
  \<^verbatim>\<open>this.rooms[room]\<close> and \<^verbatim>\<open>this.sids[id]\<close> (\<^verbatim>\<open>roomsOf(sessionId)\<close>), with no entry
  read as no member and no room, and the insertion of a key that keeps the
  order of the keys already there.
\<close>

definition members :: "adapter \<Rightarrow> string \<Rightarrow> string list" where
  "members a room = (case map_of (rooms a) room of None \<Rightarrow> [] | Some ms \<Rightarrow> ms)"

definition roomsOf :: "adapter \<Rightarrow> string \<Rightarrow> string list" where
  "roomsOf a sid = (case map_of (sids a) sid of None \<Rightarrow> [] | Some rs \<Rightarrow> rs)"

definition add_last :: "string \<Rightarrow> string list \<Rightarrow> string list" where
  "add_last x xs = (if x \<in> set xs then xs else xs @ [x])"

text \<open>
  Modelled from the spec: \<^verbatim>\<open>Adapter.prototype.add\<close>, the \<^verbatim>\<open>localAdd(sessionId, room)\<close>
  of the membership store, a mapping of room to sessions and of session to
  rooms. Joining puts the session among the members of the room and the room
  among the rooms of the session.
\<close>

definition Adapter_add :: "string \<Rightarrow> string \<Rightarrow> adapter \<Rightarrow> adapter" where
  "Adapter_add sid room a =
     a\<lparr>sids := AList.update sid (add_last room (roomsOf a sid)) (sids a),
       rooms := AList.update room (add_last sid (members a room)) (rooms a)\<rparr>"

text \<open>
  Modelled from the spec: \<^verbatim>\<open>Adapter.prototype.del\<close>, the
  \<^verbatim>\<open>localRemove(sessionId, room)\<close> of the membership store. Leaving removes the
  session from the room and the room from the session's rooms; a room with no
  member left has no entry any more, which is what line 237 tests with
  \<^verbatim>\<open>!this.rooms[room]\<close>. The session's record stays until \<^verbatim>\<open>delAll\<close> deletes
  it (line 279).
\<close>

definition Adapter_del :: "string \<Rightarrow> string \<Rightarrow> adapter \<Rightarrow> adapter" where
  "Adapter_del sid room a =
     a\<lparr>sids := (case map_of (sids a) sid of
                  None \<Rightarrow> sids a
                | Some rs \<Rightarrow> AList.update sid (removeAll room rs) (sids a)),
       rooms := (case map_of (rooms a) room of
                   None \<Rightarrow> rooms a
                 | Some ms \<Rightarrow>
                     (if removeAll sid ms = [] then AList.delete room (rooms a)
                      else AList.update room (removeAll sid ms) (rooms a)))\<rparr>"

text \<open>
  Modelled from the spec: \<^verbatim>\<open>Adapter.prototype.clients\<close>, the
  \<^verbatim>\<open>localMatchingClients(rooms)\<close> of the membership store: the sessions of the
  given rooms, each once, and every locally known session when no room is
  given. The result reaches the callback as \<^verbatim>\<open>(err, clients)\<close>; the store
  itself never fails.
\<close>

definition Adapter_clients :: "string list \<Rightarrow> adapter \<Rightarrow> string + string list" where
  "Adapter_clients rs a =
     Inr (if rs = [] then map fst (sids a) else remdups (concat (map (members a) rs)))"

section \<open>The constructor\<close>

text \<open>
  Lines 71 to 104. The two subscribe commands are issued first; their callbacks
  emit an error event when redis answers with one.
\<close>

definition Redis ::
  "string \<Rightarrow> string \<Rightarrow> bool \<Rightarrow> string \<Rightarrow> string option \<Rightarrow> string option \<Rightarrow> adapter" where
  "Redis u pre sw name err1 err2 =
     (let a = \<lparr>uid = u, prefix = pre, nsp_name = name, has_startsWith = sw,
               rooms = [], sids = [], subscribed = {}, trace = []\<rparr>
      in a\<lparr>subscribed := {channel a},
           trace := [Subscribe SubClient (channel a), Subscribe SyncSub (syncChannel a)]
                    @ reply False err1 @ reply False err2\<rparr>)"

section \<open>Joining and leaving rooms\<close>

text \<open>
  \<^verbatim>\<open>sub.subscribe(channel, callback)\<close> and \<^verbatim>\<open>sub.unsubscribe(channel, callback)\<close>: the
  command is sent on the connection \<^verbatim>\<open>sub\<close>; the callback runs later, with the
  answer of redis.
\<close>

definition sub_subscribe :: "string \<Rightarrow> adapter \<Rightarrow> adapter" where
  "sub_subscribe chan a = log [Subscribe SubClient chan] (a\<lparr>subscribed := insert chan (subscribed a)\<rparr>)"

definition sub_unsubscribe :: "string \<Rightarrow> adapter \<Rightarrow> adapter" where
  "sub_unsubscribe chan a = log [Unsubscribe SubClient chan] (a\<lparr>subscribed := subscribed a - {chan}\<rparr>)"

text \<open>
  Lines 206 to 219. \<open>fn\<close> tells whether a callback was given, \<open>err\<close> is the answer
  of redis to the subscribe command.
\<close>

definition add :: "string \<Rightarrow> string \<Rightarrow> bool \<Rightarrow> string option \<Rightarrow> adapter \<Rightarrow> adapter" where
  "add sid room fn err a =
     (let a1 = log [Debug ''adding %s to %s '' [sid, room]] a;
          a2 = log [LocalAdd sid room] (Adapter_add sid room a1);
          chan = prefix a2 @ ''#'' @ nsp_name a2 @ ''#'' @ room @ ''#'';
          a3 = sub_subscribe chan a2
      in log (reply fn err) a3)"

text \<open>
  Lines 230 to 250, in two halves. \<open>del_issue\<close> is what runs when \<^verbatim>\<open>del\<close> is
  called, up to and including the unsubscribe command, and tells whether the
  command was issued. \<open>del_done\<close> is what runs later: the callback of the
  command, or the \<^verbatim>\<open>process.nextTick\<close> of the else branch.
\<close>

definition del_issue :: "string \<Rightarrow> string \<Rightarrow> adapter \<Rightarrow> bool \<times> adapter" where
  "del_issue sid room a =
     (let a1 = log [Debug ''removing %s from %s'' [sid, room]] a;
          hasRoom = (map_of (rooms a1) room \<noteq> None);
          a2 = log [LocalDel sid room] (Adapter_del sid room a1)
      in if hasRoom \<and> map_of (rooms a2) room = None
         then (let chan = prefix a2 @ ''#'' @ nsp_name a2 @ ''#'' @ room @ ''#''
               in (True, sub_unsubscribe chan a2))
         else (False, a2))"

definition del_done :: "bool \<Rightarrow> bool \<Rightarrow> string option \<Rightarrow> event list" where
  "del_done fn issued err = (if issued then reply fn err else cb fn None)"

definition del :: "string \<Rightarrow> string \<Rightarrow> bool \<Rightarrow> string option \<Rightarrow> adapter \<Rightarrow> adapter" where
  "del sid room fn err a =
     (case del_issue sid room a of (issued, a') \<Rightarrow> log (del_done fn issued err) a')"


text \<open>
  The completions, in the order of the commands. A failed \<^verbatim>\<open>del\<close> emits its
  error (line 241) and hands it to \<^verbatim>\<open>next\<close>; \<^verbatim>\<open>async.forEach\<close> calls the final
  callback with the first error it is handed (lines 274 to 277) and ignores the
  later ones. \<open>seen\<close> tells whether the final callback has run.
\<close>

fun forEach_replies :: "bool \<Rightarrow> bool \<Rightarrow> string option list \<Rightarrow> event list" where
  "forEach_replies fn seen [] = []"
| "forEach_replies fn seen (None # outs) = forEach_replies fn seen outs"
| "forEach_replies fn seen (Some e # outs) =
     EmitError e # (if seen then [] else EmitError e # cb fn (Some e))
     @ forEach_replies fn True outs"


text \<open>Sequences of joins and leaves, from a fresh instance.\<close>

datatype op =
    Add string string bool "string option"
  | Del string string bool "string option"

fun apply_op :: "op \<Rightarrow> adapter \<Rightarrow> adapter" where
  "apply_op (Add sid room fn err) a = add sid room fn err a"
| "apply_op (Del sid room fn err) a = del sid room fn err a"

definition run :: "op list \<Rightarrow> adapter \<Rightarrow> adapter" where
  "run ops a = fold apply_op ops a"

section \<open>Answering a query\<close>

text \<open>
  Lines 148 to 170. The method uses the identifier \<^verbatim>\<open>self\<close> without declaring
  it. The identifiers in scope are those of the method and its callback, of the
  function \<^verbatim>\<open>adapter\<close> (lines 28 to 62) and of the module (lines 6 to 18, and
  the five names every CommonJS module receives); \<^verbatim>\<open>var self = this\<close> of line 92
  is local to the constructor, those of lines 208, 233, 263 and 299 to the
  other methods. Node.js has no global of that name, so evaluating \<^verbatim>\<open>self\<close>
  throws a ReferenceError.
\<close>

definition module_scope :: "string list" where
  "module_scope = [''uid2'', ''redis'', ''msgpack'', ''Adapter'', ''Emitter'', ''debug'', ''async'',
     ''adapter'', ''exports'', ''require'', ''module'', ''__filename'', ''__dirname'']"

definition adapter_scope :: "string list" where
  "adapter_scope = [''uri'', ''opts'', ''pub'', ''sub'', ''syncSub'', ''prefix'', ''subEvent'',
     ''createClient'', ''syncPub'', ''uid'', ''Redis'']"

definition onclients_scope :: "string list" where
  "onclients_scope = [''channel'', ''msg'', ''decoded'', ''err'']"

definition callback_scope :: "string list" where
  "callback_scope = [''err'', ''clients'', ''responseChn'', ''response'']"

definition in_scope :: "string \<Rightarrow> string list list \<Rightarrow> bool" where
  "in_scope x chain = list_ex (\<lambda>scope. x \<in> set scope) chain"

definition onclients :: "string \<Rightarrow> sync_msg \<Rightarrow> adapter \<Rightarrow> js_error + adapter" where
  "onclients chan msg a =
     (case msg of
        Malformed \<Rightarrow>
          (if in_scope ''self'' [onclients_scope, adapter_scope, module_scope]
           then Inr (log [EmitError ''SyntaxError''] a)
           else Inl (ReferenceError ''self''))
      | Request t rs \<Rightarrow>
          (case Adapter_clients rs a of
             Inl err \<Rightarrow>
               (if in_scope ''self'' [callback_scope, onclients_scope, adapter_scope, module_scope]
                then Inr (log [EmitError err] a)
                else Inl (ReferenceError ''self''))
           | Inr cs \<Rightarrow>
               (let responseChn = prefix a @ ''-sync#response#'' @ t;
                    response = ResponseJson cs
                in Inr (log [Publish SyncPub responseChn response] a))))"

section \<open>Asking the cluster\<close>

text \<open>
  Lines 291 to 350. A call of \<^verbatim>\<open>clients\<close> sets up callbacks and returns; what
  happens next depends on what arrives. The record holds the variables the
  callbacks share, \<open>timeout\<close> the state of the timer of line 325 and
  \<open>clientsSub\<close> the state of the connection of line 304.
\<close>

datatype timer = Unset | Armed | Cleared | Fired

datatype conn_state = AwaitNumsub | Abandoned | AwaitSubscribe | Listening | Closed

record query =
  q_fn :: bool
  q_transaction :: string
  q_rooms :: "string list"
  q_responseChn :: string
  q_syncChannel :: string
  numsub :: nat
  msg_count :: nat
  clients_acc :: "string list"
  timeout :: timer
  clientsSub :: conn_state
  q_trace :: "event list"

definition qlog :: "event list \<Rightarrow> query \<Rightarrow> query" where
  "qlog es q = q\<lparr>q_trace := q_trace q @ es\<rparr>"

text \<open>\<^verbatim>\<open>if (fn) process.nextTick(fn.bind(null, null, clients))\<close>.\<close>

definition cb_clients :: "bool \<Rightarrow> string list \<Rightarrow> event list" where
  "cb_clients fn cs = (if fn then [CallbackClients cs] else [])"

text \<open>
  Lines 291 to 305: the call itself. \<open>rs\<close> is \<open>None\<close> when no rooms are given
  (\<^verbatim>\<open>rooms = rooms || []\<close>), \<open>t\<close> is the value of \<^verbatim>\<open>uid2(6)\<close>.
\<close>

definition clients :: "string list option \<Rightarrow> bool \<Rightarrow> string \<Rightarrow> adapter \<Rightarrow> query" where
  "clients rs fn t a =
     \<lparr>q_fn = fn, q_transaction = t,
      q_rooms = (case rs of None \<Rightarrow> [] | Some r \<Rightarrow> r),
      q_responseChn = prefix a @ ''-sync#response#'' @ t,
      q_syncChannel = syncChannel a,
      numsub = 0, msg_count = 0, clients_acc = [],
      timeout = Unset, clientsSub = AwaitNumsub,
      q_trace = [Duplicate SyncPub, NumsubCommand (syncChannel a)]\<rparr>"

text \<open>
  What arrives: the answer to the numsub command (an error or the count), the
  confirmation of the subscription, a message on the response channel (\<open>None\<close>
  when \<^verbatim>\<open>JSON.parse\<close> throws on it), and the firing of the timer.
\<close>

datatype arrival =
    NumsubReply "string + nat"
  | SubscribeEvent
  | MessageEvent "string list option"
  | TimerFires

text \<open>Lines 305 to 312 and 346.\<close>

definition on_numsub :: "string + nat \<Rightarrow> query \<Rightarrow> query" where
  "on_numsub r q =
     (case r of
        Inl err \<Rightarrow> (qlog (EmitError err # cb (q_fn q) (Some err)) q)\<lparr>clientsSub := Abandoned\<rparr>
      | Inr n \<Rightarrow>
          (qlog [Subscribe ClientsSub (q_responseChn q)] q)
            \<lparr>numsub := n, msg_count := 0, clients_acc := [], clientsSub := AwaitSubscribe\<rparr>)"

text \<open>Lines 317 to 344.\<close>

definition on_subscribe :: "query \<Rightarrow> query" where
  "on_subscribe q =
     (qlog [SetTimeout 5000,
            Publish SyncPub (q_syncChannel q) (RequestJson (q_transaction q) (q_rooms q))] q)
       \<lparr>timeout := Armed, clientsSub := Listening\<rparr>"

text \<open>Lines 330 to 340. \<^verbatim>\<open>clearTimeout\<close> has no effect on a timer that has fired.\<close>

definition on_message :: "string list option \<Rightarrow> query \<Rightarrow> js_error + query" where
  "on_message m q =
     (case m of
        None \<Rightarrow> Inl SyntaxError
      | Some response_clients \<Rightarrow>
          (let q1 = q\<lparr>clients_acc := clients_acc q @ response_clients,
                      msg_count := msg_count q + 1\<rparr>
           in if msg_count q1 = numsub q1
              then Inr ((qlog ([ClearTimeout, UnsubscribeAll ClientsSub, Quit ClientsSub]
                               @ cb_clients (q_fn q1) (clients_acc q1)) q1)
                          \<lparr>timeout := (if timeout q1 = Armed then Cleared else timeout q1),
                           clientsSub := Closed\<rparr>)
              else Inr q1))"

text \<open>Lines 325 to 328.\<close>

definition on_timeout :: "query \<Rightarrow> query" where
  "on_timeout q =
     (qlog (Warn ''Too many subscribers on the sync channel''
            # cb_clients (q_fn q) (clients_acc q)) q)
       \<lparr>timeout := Fired\<rparr>"

text \<open>
  An arrival runs the callback registered for it, if there is one: the numsub
  answer is awaited once, the subscription is confirmed once, messages are
  delivered while the connection is subscribed, and the timer fires only while
  armed.
\<close>

fun arrive :: "arrival \<Rightarrow> query \<Rightarrow> js_error + query" where
  "arrive (NumsubReply r) q = Inr (if clientsSub q = AwaitNumsub then on_numsub r q else q)"
| "arrive SubscribeEvent q = Inr (if clientsSub q = AwaitSubscribe then on_subscribe q else q)"
| "arrive (MessageEvent m) q = (if clientsSub q = Listening then on_message m q else Inr q)"
| "arrive TimerFires q = Inr (if timeout q = Armed then on_timeout q else q)"

fun arrivals :: "arrival list \<Rightarrow> query \<Rightarrow> js_error + query" where
  "arrivals [] q = Inr q"
| "arrivals (x # xs) q = (case arrive x q of Inl e \<Rightarrow> Inl e | Inr q' \<Rightarrow> arrivals xs q')"

section \<open>Notions used in the statements\<close>

text \<open>The events a call appends to the trace.\<close>

definition effects :: "(adapter \<Rightarrow> adapter) \<Rightarrow> adapter \<Rightarrow> event list" where
  "effects f a = drop (length (trace a)) (trace (f a))"





text \<open>
  The test of line 237: the room had an entry before the local leave and has
  none after it.
\<close>

definition leaves_empty :: "string \<Rightarrow> string \<Rightarrow> adapter \<Rightarrow> bool" where
  "leaves_empty sid room a \<longleftrightarrow>
     map_of (rooms a) room \<noteq> None \<and> map_of (rooms (Adapter_del sid room a)) room = None"


fun first_error :: "string option list \<Rightarrow> string option" where
  "first_error [] = None"
| "first_error (None # outs) = first_error outs"
| "first_error (Some e # outs) = Some e"

definition is_callback :: "event \<Rightarrow> bool" where
  "is_callback e = (case e of Callback _ \<Rightarrow> True | _ \<Rightarrow> False)"



definition is_unsubscribe :: "event \<Rightarrow> bool" where
  "is_unsubscribe e = (case e of Unsubscribe _ _ \<Rightarrow> True | _ \<Rightarrow> False)"


text \<open>
  What is observed of a query once the arrivals are handled: the state of the
  connection, the state of the timer and the trace.
\<close>

definition observed :: "js_error + query \<Rightarrow> js_error + conn_state \<times> timer \<times> event list" where
  "observed r = map_sum id (\<lambda>q. (clientsSub q, timeout q, q_trace q)) r"

section \<open>Sample instances\<close>

text \<open>
  A fresh instance for the root namespace with the default prefix; the same
  after session s1 joined the room lobby; and a sequence of two joins and a
  leave.
\<close>

definition a0 :: adapter where
  "a0 = Redis ''n0de01'' ''socket.io'' True ''/'' None None"

definition a1 :: adapter where
  "a1 = add ''s1'' ''lobby'' False None a0"


text \<open>The instance \<open>a1\<close> after the sessions s1 and s2 joined the room hall.\<close>

definition a2 :: adapter where
  "a2 = add ''s2'' ''hall'' False None (add ''s1'' ''hall'' False None a1)"

section \<open>Auxiliary facts\<close>

lemma a0_fields:
  "uid a0 = ''n0de01''" "prefix a0 = ''socket.io''" "nsp_name a0 = ''/''" "has_startsWith a0"
  "rooms a0 = []" "sids a0 = []" "subscribed a0 = {''socket.io#/#''}"
  by (simp_all add: a0_def Redis_def Let_def channel_def)

lemma trace_log: "trace (log es a) = trace a @ es"
  by (simp add: log_def)

lemma effects_log: "effects (log es) a = es"
  by (simp add: effects_def log_def)

lemma startsWith_prefix: "startsWith s t \<longleftrightarrow> Sublist.prefix t s"
  by (induction s t rule: startsWith.induct) auto

lemma substr0_prefix: "substr0 s (length t) = t \<longleftrightarrow> Sublist.prefix t s"
proof
  assume "substr0 s (length t) = t"
  then have "s = t @ drop (length t) s"
    by (metis substr0_def append_take_drop_id)
  then show "Sublist.prefix t s"
    by (metis prefixI)
next
  assume "Sublist.prefix t s"
  then obtain us where "s = t @ us"
    by (auto simp: Sublist.prefix_def)
  then show "substr0 s (length t) = t"
    by (simp add: substr0_def)
qed

lemma channelMatches_prefix: "channelMatches a received p \<longleftrightarrow> Sublist.prefix p received"
  by (simp add: channelMatches_def startsWith_prefix substr0_prefix)

lemma room_channel_channel: "room_channel a room = channel a @ room @ ''#''"
  by (simp add: room_channel_def channel_def)

lemma effects_broadcast:
  "effects (broadcast p opts remote) a =
     LocalBroadcast p opts #
     (if remote then []
      else (case opts_rooms opts of
              Some rs \<Rightarrow> map (\<lambda>room. Publish PubClient (prefix a @ ''#'' @ nsp_name a @ ''#'' @ room @ ''#'')
                                  (Envelope (uid a, Some (p\<lparr>nsp := Some (nsp_name a)\<rparr>), opts))) rs
            | None \<Rightarrow> [Publish PubClient (prefix a @ ''#'' @ nsp_name a @ ''#'')
                         (Envelope (uid a, Some (p\<lparr>nsp := Some (nsp_name a)\<rparr>), opts))]))"
  by (simp add: broadcast_def Adapter_broadcast_def effects_def log_def Let_def js_string_def
      split: option.splits)

section \<open>Channel names and the channel filter\<close>

text \<open>
  C5. The channel of a namespace is a strict prefix of the channel of each of
  its rooms; \<open>channelMatches a received p\<close> holds exactly when \<open>received\<close> starts
  with \<open>p\<close>, with either implementation; so the filter of the namespace channel
  accepts every message of a room channel.
\<close>

theorem channel_prefix_relation:
  "strict_prefix (channel a) (room_channel a room)
   \<and> (channelMatches a received p \<longleftrightarrow> Sublist.prefix p received)
   \<and> channelMatches a (room_channel a room) (channel a)"
  by (simp add: channelMatches_prefix room_channel_channel strict_prefix_def)

theorem channel_prefix_relation_witness:
  "strict_prefix ''socket.io#/#'' ''socket.io#/#lobby#''
   \<and> channelMatches a0 ''socket.io#/#lobby#'' ''socket.io#/#''
   \<and> \<not> channelMatches a0 ''socket.io#/chat#'' ''socket.io#/#''"
  using channel_prefix_relation [of a0 "''lobby''" "''socket.io#/chat#''" "''socket.io#/#''"]
  by (simp add: a0_fields channel_def room_channel_def)

section \<open>Receiving one's own envelopes\<close>

text \<open>
  C1. An envelope whose origin is the uid of the receiving process is
  discarded: \<open>onmessage\<close> only writes a debug line, whichever channel the
  envelope arrived on, and the local broadcast is not called.
\<close>

theorem onmessage_self_filtering:
  assumes "origin = uid a"
  shows "onmessage chan (origin, packet, opts) a =
           log [Debug (if channelMatches a chan (channel a) then ''ignore same uid''
                       else ''ignore different channel'') []] a
         \<and> (\<forall>p o'. LocalBroadcast p o' \<notin> set (effects (onmessage chan (origin, packet, opts)) a))"
  using assms by (auto simp: onmessage_def effects_def log_def)

theorem onmessage_self_filtering_witness:
  "''n0de01'' = uid a0
   \<and> onmessage ''socket.io#/#lobby#''
        (''n0de01'', Some \<lparr>nsp = Some ''/'', body = ''hi''\<rparr>, \<lparr>opts_rooms = Some [''lobby'']\<rparr>) a0
      = log [Debug ''ignore same uid'' []] a0"
proof -
  have u: "''n0de01'' = uid a0"
    by (simp add: a0_fields)
  have m: "channelMatches a0 ''socket.io#/#lobby#'' (channel a0)"
    by (simp add: a0_fields channel_def channelMatches_def)
  show ?thesis
    using onmessage_self_filtering [OF u, of "''socket.io#/#lobby#''"
        "Some \<lparr>nsp = Some ''/'', body = ''hi''\<rparr>" "\<lparr>opts_rooms = Some [''lobby'']\<rparr>"] u m
    by simp
qed

text \<open>
  Every envelope that \<open>broadcast\<close> publishes carries the uid of the publisher,
  so every instance of the same process discards it.
\<close>

lemma own_publish_discarded:
  assumes "Publish c ch (Envelope env) \<in> set (effects (broadcast p opts remote) a)"
    and "uid b = uid a"
  shows "\<forall>p' o'. LocalBroadcast p' o' \<notin> set (effects (onmessage ch env) b)"
proof -
  from assms(1) have "fst env = uid a"
    by (auto simp: effects_broadcast split: if_splits option.splits)
  with assms(2) show ?thesis
    by (cases env) (auto simp: onmessage_def effects_def log_def)
qed

section \<open>Where a broadcast is published\<close>

text \<open>
  C10, as claimed, has a packet that names another namespace published on the
  channels of that namespace. The instance of the root namespace broadcasts a
  packet that names the namespace /chat to the room lobby: the inherited
  method has written the root namespace into the packet when line 184 reads
  it, and the one publication is on the channel of the room of the root
  namespace.
\<close>

theorem broadcast_other_namespace_counterexample:
  "effects (broadcast \<lparr>nsp = Some ''/chat'', body = ''hi''\<rparr> \<lparr>opts_rooms = Some [''lobby'']\<rparr> False) a0 =
     [LocalBroadcast \<lparr>nsp = Some ''/chat'', body = ''hi''\<rparr> \<lparr>opts_rooms = Some [''lobby'']\<rparr>,
      Publish PubClient ''socket.io#/#lobby#''
        (Envelope (''n0de01'', Some \<lparr>nsp = Some ''/'', body = ''hi''\<rparr>, \<lparr>opts_rooms = Some [''lobby'']\<rparr>))]"
  by (simp add: effects_broadcast a0_fields)

text \<open>
  C10, amended. A broadcast that is not a replay publishes on the channel made
  of the prefix and of the namespace the packet holds at line 184, which is
  the namespace of the instance on which \<open>broadcast\<close> is called, whatever
  namespace the packet named before: the channels are those of the instance
  itself, and the envelope carries the packet with the namespace of the
  instance.
\<close>

theorem broadcast_channel_of_instance:
  "effects (broadcast p opts False) a =
     LocalBroadcast p opts #
     (case opts_rooms opts of
        Some rs \<Rightarrow> map (\<lambda>room. Publish PubClient (room_channel a room)
                            (Envelope (uid a, Some (p\<lparr>nsp := Some (nsp_name a)\<rparr>), opts))) rs
      | None \<Rightarrow> [Publish PubClient (channel a)
                   (Envelope (uid a, Some (p\<lparr>nsp := Some (nsp_name a)\<rparr>), opts))])"
  by (simp add: effects_broadcast room_channel_def channel_def split: option.splits)

theorem broadcast_channel_of_instance_witness:
  "effects (broadcast \<lparr>nsp = None, body = ''hi''\<rparr> \<lparr>opts_rooms = None\<rparr> False) a0 =
     [LocalBroadcast \<lparr>nsp = None, body = ''hi''\<rparr> \<lparr>opts_rooms = None\<rparr>,
      Publish PubClient ''socket.io#/#''
        (Envelope (''n0de01'', Some \<lparr>nsp = Some ''/'', body = ''hi''\<rparr>, \<lparr>opts_rooms = None\<rparr>))]"
  using broadcast_channel_of_instance [of "\<lparr>nsp = None, body = ''hi''\<rparr>" "\<lparr>opts_rooms = None\<rparr>" a0]
  by (simp add: a0_fields channel_def)

text \<open>
  C2. The claim has a broadcast with an empty list of rooms published once on
  the channel of the namespace. The code tests \<^verbatim>\<open>opts.rooms\<close> for truthiness, the
  empty array passes the test, and the loop over it publishes nothing: the
  packet is delivered locally and reaches no other node.
\<close>

theorem broadcast_empty_rooms_publishes_nothing:
  "effects (broadcast \<lparr>nsp = Some ''/'', body = ''hi''\<rparr> \<lparr>opts_rooms = Some []\<rparr> False) a0 =
     [LocalBroadcast \<lparr>nsp = Some ''/'', body = ''hi''\<rparr> \<lparr>opts_rooms = Some []\<rparr>]"
  by (simp add: effects_broadcast)

text \<open>
  The other cases are as claimed: the local delivery comes first; without
  \<^verbatim>\<open>opts.rooms\<close> there is one publication on the channel of the namespace, with
  rooms one per room (\<open>effects_broadcast\<close>), and a replay publishes nothing.
\<close>

lemma broadcast_rooms_absent:
  "opts_rooms opts = None \<Longrightarrow>
   effects (broadcast p opts False) a =
     [LocalBroadcast p opts,
      Publish PubClient (channel a) (Envelope (uid a, Some (p\<lparr>nsp := Some (nsp_name a)\<rparr>), opts))]"
  by (simp add: effects_broadcast channel_def)

lemma broadcast_remote: "effects (broadcast p opts True) a = [LocalBroadcast p opts]"
  by (simp add: effects_broadcast)

section \<open>Membership and subscriptions\<close>

subsection \<open>What a join and a leave change\<close>


lemma room_channel_log [simp]: "room_channel (log es a) = room_channel a"
  by (rule ext) (simp add: room_channel_def log_def)

lemma members_log [simp]: "members (log es a) = members a"
  by (rule ext) (simp add: members_def log_def)

lemma roomsOf_log [simp]: "roomsOf (log es a) = roomsOf a"
  by (rule ext) (simp add: roomsOf_def log_def)


lemma roomsOf_Adapter_add:
  "roomsOf (Adapter_add sid room a) s = (if s = sid then add_last room (roomsOf a s) else roomsOf a s)"
  by (simp add: roomsOf_def Adapter_add_def update_conv')


lemma roomsOf_Adapter_del:
  "roomsOf (Adapter_del sid room a) s = (if s = sid then removeAll room (roomsOf a s) else roomsOf a s)"
  by (simp add: roomsOf_def Adapter_del_def update_conv' split: option.splits)



lemma add_last_nonempty [simp]: "add_last x xs \<noteq> []"
  by (auto simp: add_last_def)

lemma set_add_last [simp]: "set (add_last x xs) = insert x (set xs)"
  by (auto simp: add_last_def)


lemma add_fields:
  "prefix (add sid room fn err a) = prefix a"
  "nsp_name (add sid room fn err a) = nsp_name a"
  "subscribed (add sid room fn err a) = insert (room_channel a room) (subscribed a)"
  "rooms (add sid room fn err a) = rooms (Adapter_add sid room a)"
  "sids (add sid room fn err a) = sids (Adapter_add sid room a)"
  "trace (add sid room fn err a) =
     trace a @ [Debug ''adding %s to %s '' [sid, room], LocalAdd sid room,
                Subscribe SubClient (room_channel a room)] @ reply fn err"
  by (simp_all add: add_def Let_def log_def sub_subscribe_def Adapter_add_def room_channel_def
      members_def roomsOf_def)

lemma add_derived:
  "room_channel (add sid room fn err a) = room_channel a"
  "members (add sid room fn err a) = members (Adapter_add sid room a)"
  "roomsOf (add sid room fn err a) = roomsOf (Adapter_add sid room a)"
  by (rule ext, simp add: room_channel_def members_def roomsOf_def add_fields)+

lemma log_fields [simp]:
  "uid (log es a) = uid a" "prefix (log es a) = prefix a" "nsp_name (log es a) = nsp_name a"
  "rooms (log es a) = rooms a" "sids (log es a) = sids a" "subscribed (log es a) = subscribed a"
  "trace (log es a) = trace a @ es"
  by (simp_all add: log_def)

lemma log_log [simp]: "log es' (log es a) = log (es @ es') a"
  by (simp add: log_def)

lemma Adapter_del_log: "Adapter_del sid room (log es a) = log es (Adapter_del sid room a)"
  by (simp add: Adapter_del_def log_def split: option.splits)

lemma Adapter_del_fields [simp]:
  "uid (Adapter_del sid room a) = uid a" "prefix (Adapter_del sid room a) = prefix a"
  "nsp_name (Adapter_del sid room a) = nsp_name a"
  "subscribed (Adapter_del sid room a) = subscribed a"
  "trace (Adapter_del sid room a) = trace a"
  by (simp_all add: Adapter_del_def)

lemma del_issue_alt:
  "del_issue sid room a =
     (leaves_empty sid room a,
      (if leaves_empty sid room a
       then sub_unsubscribe (room_channel a room)
              (log [Debug ''removing %s from %s'' [sid, room], LocalDel sid room] (Adapter_del sid room a))
       else log [Debug ''removing %s from %s'' [sid, room], LocalDel sid room] (Adapter_del sid room a)))"
  by (simp add: del_issue_def Let_def Adapter_del_log leaves_empty_def room_channel_def)

lemma del_issue_fields:
  "fst (del_issue sid room a) = leaves_empty sid room a"
  "prefix (snd (del_issue sid room a)) = prefix a"
  "nsp_name (snd (del_issue sid room a)) = nsp_name a"
  "subscribed (snd (del_issue sid room a)) =
     (if leaves_empty sid room a then subscribed a - {room_channel a room} else subscribed a)"
  "rooms (snd (del_issue sid room a)) = rooms (Adapter_del sid room a)"
  "sids (snd (del_issue sid room a)) = sids (Adapter_del sid room a)"
  "trace (snd (del_issue sid room a)) =
     trace a @ [Debug ''removing %s from %s'' [sid, room], LocalDel sid room]
     @ (if leaves_empty sid room a then [Unsubscribe SubClient (room_channel a room)] else [])"
  by (simp_all add: del_issue_alt sub_unsubscribe_def)

lemma del_fields:
  "prefix (del sid room fn err a) = prefix a"
  "nsp_name (del sid room fn err a) = nsp_name a"
  "subscribed (del sid room fn err a) =
     (if leaves_empty sid room a then subscribed a - {room_channel a room} else subscribed a)"
  "rooms (del sid room fn err a) = rooms (Adapter_del sid room a)"
  "sids (del sid room fn err a) = sids (Adapter_del sid room a)"
  "trace (del sid room fn err a) =
     trace a @ [Debug ''removing %s from %s'' [sid, room], LocalDel sid room]
     @ (if leaves_empty sid room a then [Unsubscribe SubClient (room_channel a room)] else [])
     @ del_done fn (leaves_empty sid room a) err"
  by (simp_all add: del_def split_beta log_def del_issue_fields)

lemma del_derived:
  "room_channel (del sid room fn err a) = room_channel a"
  "members (del sid room fn err a) = members (Adapter_del sid room a)"
  "roomsOf (del sid room fn err a) = roomsOf (Adapter_del sid room a)"
  by (rule ext, simp add: room_channel_def members_def roomsOf_def del_fields)+



lemma a1_fields:
  "rooms a1 = [(''lobby'', [''s1''])]" "sids a1 = [(''s1'', [''lobby''])]"
  "prefix a1 = ''socket.io''" "nsp_name a1 = ''/''"
  "subscribed a1 = {''socket.io#/#lobby#'', ''socket.io#/#''}"
  by (simp_all add: a1_def add_fields Adapter_add_def a0_fields members_def roomsOf_def
      add_last_def room_channel_def)

subsection \<open>The invariant\<close>













subsection \<open>Joining twice, leaving a room not joined\<close>






section \<open>Leaving all rooms\<close>



lemma is_callback_simps [simp]:
  "is_callback (Callback x)" "\<not> is_callback (Debug s xs)" "\<not> is_callback (LocalDel s r)"
  "\<not> is_callback (Unsubscribe c ch)" "\<not> is_callback (EmitError e)"
  by (simp_all add: is_callback_def)

lemma filter_is_callback_cb [simp]: "filter is_callback (cb fn x) = cb fn x"
  by (simp add: cb_def)








lemma forEach_replies_emits:
  "first_error outs = Some e \<Longrightarrow> EmitError e \<in> set (forEach_replies fn seen outs)"
  by (induction outs rule: first_error.induct) simp_all

















lemma is_unsubscribe_simps [simp]:
  "is_unsubscribe (Unsubscribe c ch)" "\<not> is_unsubscribe (Debug s xs)"
  "\<not> is_unsubscribe (LocalDel s r)" "\<not> is_unsubscribe (Callback x)"
  "\<not> is_unsubscribe (EmitError e)"
  by (simp_all add: is_unsubscribe_def)









text \<open>
  The rooms of a session are listed once each on every instance reached by
  joins and leaves.
\<close>

lemma distinct_add_last: "distinct xs \<Longrightarrow> distinct (add_last x xs)"
  by (simp add: add_last_def)

lemma distinct_roomsOf_apply_op:
  "(\<forall>s. distinct (roomsOf a s)) \<Longrightarrow> distinct (roomsOf (apply_op x a) s)"
  by (cases x) (simp_all add: add_derived del_derived roomsOf_Adapter_add roomsOf_Adapter_del
      distinct_add_last distinct_removeAll)

lemma distinct_roomsOf_fold:
  "(\<forall>s. distinct (roomsOf a s)) \<Longrightarrow> distinct (roomsOf (fold apply_op xs a) s)"
  by (induction xs arbitrary: a s) (simp_all add: distinct_roomsOf_apply_op)

lemma distinct_roomsOf_run: "distinct (roomsOf (run xs (Redis u pre sw name err1 err2)) s)"
proof -
  have "\<forall>s. distinct (roomsOf (Redis u pre sw name err1 err2) s)"
    by (simp add: roomsOf_def Redis_def Let_def)
  then show ?thesis
    unfolding run_def by (rule distinct_roomsOf_fold)
qed




section \<open>Answering a query: results\<close>

text \<open>
  C6. The claim has a malformed request reported as an error event, without
  throwing. The handler of the exception of \<^verbatim>\<open>JSON.parse\<close> evaluates
  \<^verbatim>\<open>self.emit\<close>, and \<^verbatim>\<open>self\<close> is not bound there: the handler throws a
  ReferenceError and no error event is emitted.
\<close>

theorem onclients_malformed_throws:
  "onclients ''socket.io-sync#request'' Malformed a0 = Inl (ReferenceError ''self'')"
  by (simp add: onclients_def in_scope_def onclients_scope_def adapter_scope_def module_scope_def)

text \<open>
  C7. A well-formed request is answered with the local clients of its rooms,
  or with every locally known session when it names no room, in one message
  published on the response channel of the request's transaction.
\<close>

theorem onclients_responds:
  "\<exists>cs. Adapter_clients rs a = Inr cs
      \<and> onclients chan (Request t rs) a = Inr (log [Publish SyncPub (responseChn a t) (ResponseJson cs)] a)
      \<and> set cs = (if rs = [] then fst ` set (sids a) else (\<Union>room \<in> set rs. set (members a room)))"
  by (simp add: onclients_def Adapter_clients_def responseChn_def)

theorem onclients_responds_witness:
  "onclients ''socket.io-sync#request'' (Request ''tx0001'' [''lobby'']) a1 =
     Inr (log [Publish SyncPub ''socket.io-sync#response#tx0001'' (ResponseJson [''s1''])] a1)
   \<and> onclients ''socket.io-sync#request'' (Request ''tx0002'' []) a1 =
     Inr (log [Publish SyncPub ''socket.io-sync#response#tx0002'' (ResponseJson [''s1''])] a1)"
  using onclients_responds [of "[''lobby'']" a1 "''socket.io-sync#request''" "''tx0001''"]
    onclients_responds [of "[]" a1 "''socket.io-sync#request''" "''tx0002''"]
  by (auto simp: Adapter_clients_def a1_fields members_def responseChn_def)

section \<open>Asking the cluster: results\<close>

text \<open>
  C3. The claim has the connection of the query unsubscribed and released on
  every path. With two subscribers expected and one answer received, the timer
  fires: the callback receives the one answer, and the connection stays
  subscribed and open; neither \<^verbatim>\<open>unsubscribe\<close> nor \<^verbatim>\<open>quit\<close> is called.
\<close>

theorem clients_timeout_keeps_connection:
  "observed
     (arrivals [NumsubReply (Inr 2), SubscribeEvent, MessageEvent (Some [''s1'']), TimerFires]
        (clients None True ''tx0001'' a0)) =
   Inr (Listening, Fired,
        [Duplicate SyncPub, NumsubCommand ''socket.io-sync#request'',
         Subscribe ClientsSub ''socket.io-sync#response#tx0001'',
         SetTimeout 5000, Publish SyncPub ''socket.io-sync#request'' (RequestJson ''tx0001'' []),
         Warn ''Too many subscribers on the sync channel'', CallbackClients [''s1'']])"
  by (simp add: observed_def clients_def a0_fields syncChannel_def on_numsub_def on_subscribe_def
      on_message_def on_timeout_def qlog_def cb_clients_def Let_def)

text \<open>
  The other parts hold. When the timer fires the callback receives what has
  been gathered, and the connection is left as it is; the answer that brings
  the count to the expected number cancels the timer, unsubscribes, closes the
  connection and calls back.
\<close>

lemma deadline_calls_back:
  "timeout q = Armed \<Longrightarrow>
   \<exists>q'. arrive TimerFires q = Inr q'
      \<and> q_trace q' = q_trace q @ Warn ''Too many subscribers on the sync channel''
                                # cb_clients (q_fn q) (clients_acc q)
      \<and> clientsSub q' = clientsSub q \<and> timeout q' = Fired"
  by (simp add: on_timeout_def qlog_def)

lemma last_answer_releases:
  "clientsSub q = Listening \<Longrightarrow> msg_count q + 1 = numsub q \<Longrightarrow>
   \<exists>q'. arrive (MessageEvent (Some cs)) q = Inr q'
      \<and> q_trace q' = q_trace q @ [ClearTimeout, UnsubscribeAll ClientsSub, Quit ClientsSub]
                        @ cb_clients (q_fn q) (clients_acc q @ cs)
      \<and> clientsSub q' = Closed \<and> timeout q' \<noteq> Armed"
  by (simp add: on_message_def qlog_def Let_def)

lemma clients_all_answers_release:
  "observed
     (arrivals [NumsubReply (Inr 1), SubscribeEvent, MessageEvent (Some [''s1''])]
        (clients None True ''tx0001'' a0)) =
   Inr (Closed, Cleared,
        [Duplicate SyncPub, NumsubCommand ''socket.io-sync#request'',
         Subscribe ClientsSub ''socket.io-sync#response#tx0001'',
         SetTimeout 5000, Publish SyncPub ''socket.io-sync#request'' (RequestJson ''tx0001'' []),
         ClearTimeout, UnsubscribeAll ClientsSub, Quit ClientsSub, CallbackClients [''s1'']])"
  by (simp add: observed_def clients_def a0_fields syncChannel_def on_numsub_def on_subscribe_def
      on_message_def on_timeout_def qlog_def cb_clients_def Let_def)

end
